theory Spec2Isabelle
  imports Main "HOL-Library.Multiset" "HOL-Library.List_Lexorder"
begin

section \<open>Python text\<close>

text \<open>
  A Python \<^verbatim>\<open>str\<close> is a sequence of Unicode code points and \<^verbatim>\<open>len\<close> counts code
  points, so a string is a list of code points here. The source has one literal outside
  ASCII, the em dash (U+2014) in front of a record's date; it is one element, 8212.
\<close>

type_synonym str = "nat list"

definition lit :: "string \<Rightarrow> str" where
  "lit s = map of_char s"

text \<open>\<^verbatim>\<open>sep.join(parts)\<close>.\<close>

fun str_join :: "str \<Rightarrow> str list \<Rightarrow> str" where
  "str_join sep [] = []"
| "str_join sep [x] = x"
| "str_join sep (x # y # ys) = x @ sep @ str_join sep (y # ys)"

text \<open>
  \<^verbatim>\<open>str.isspace\<close> on one code point: the characters CPython's \<^verbatim>\<open>str.strip()\<close> removes.
\<close>

definition isspace :: "nat \<Rightarrow> bool" where
  "isspace c = ((9 \<le> c \<and> c \<le> 13) \<or> (28 \<le> c \<and> c \<le> 32) \<or> c = 133 \<or> c = 160
     \<or> c = 5760 \<or> (8192 \<le> c \<and> c \<le> 8202) \<or> c = 8232 \<or> c = 8233 \<or> c = 8239
     \<or> c = 8287 \<or> c = 12288)"

definition strip :: "str \<Rightarrow> str" where
  "strip s = rev (dropWhile isspace (rev (dropWhile isspace s)))"

text \<open>
  \<^verbatim>\<open>name.lower().endswith(".pdf")\<close>. Only the last four code points decide, and the only
  code points that \<^verbatim>\<open>lower()\<close> sends to \<^verbatim>\<open>p\<close>, \<^verbatim>\<open>d\<close>, \<^verbatim>\<open>f\<close> are these letters and their
  ASCII capitals, so lowering ASCII capitals is enough.
\<close>

definition ascii_lower :: "nat \<Rightarrow> nat" where
  "ascii_lower c = (if 65 \<le> c \<and> c \<le> 90 then c + 32 else c)"

definition endswith_pdf :: "str \<Rightarrow> bool" where
  "endswith_pdf nm =
     (4 \<le> length nm \<and> map ascii_lower (drop (length nm - 4) nm) = lit ''.pdf'')"

section \<open>Models: \<^verbatim>\<open>apps/records/models/medical_record.py\<close>\<close>

datatype RecordType =
  CONDITION | MEDICATION | ALLERGY | PROCEDURE | VITAL | LAB_RESULT
  | IMMUNIZATION | FAMILY_HISTORY | OTHER

text \<open>The members of \<^verbatim>\<open>MedicalRecord.RecordType\<close> in the order the class declares them.\<close>

definition RecordType_choices :: "RecordType list" where
  "RecordType_choices =
     [CONDITION, MEDICATION, ALLERGY, PROCEDURE, VITAL, LAB_RESULT,
      IMMUNIZATION, FAMILY_HISTORY, OTHER]"

text \<open>The value of a member is the text the \<^verbatim>\<open>record_type\<close> column stores.\<close>

fun record_type_value :: "RecordType \<Rightarrow> str" where
  "record_type_value CONDITION = lit ''CONDITION''"
| "record_type_value MEDICATION = lit ''MEDICATION''"
| "record_type_value ALLERGY = lit ''ALLERGY''"
| "record_type_value PROCEDURE = lit ''PROCEDURE''"
| "record_type_value VITAL = lit ''VITAL''"
| "record_type_value LAB_RESULT = lit ''LAB_RESULT''"
| "record_type_value IMMUNIZATION = lit ''IMMUNIZATION''"
| "record_type_value FAMILY_HISTORY = lit ''FAMILY_HISTORY''"
| "record_type_value OTHER = lit ''OTHER''"

text \<open>\<^verbatim>\<open>get_record_type_display()\<close>: the label of the member.\<close>

fun get_record_type_display :: "RecordType \<Rightarrow> str" where
  "get_record_type_display CONDITION = lit ''Condition / Diagnosis''"
| "get_record_type_display MEDICATION = lit ''Medication''"
| "get_record_type_display ALLERGY = lit ''Allergy''"
| "get_record_type_display PROCEDURE = lit ''Procedure''"
| "get_record_type_display VITAL = lit ''Vital Sign''"
| "get_record_type_display LAB_RESULT = lit ''Lab Result''"
| "get_record_type_display IMMUNIZATION = lit ''Immunization''"
| "get_record_type_display FAMILY_HISTORY = lit ''Family History''"
| "get_record_type_display OTHER = lit ''Other''"

datatype DocumentType =
  LAB_REPORT | DISCHARGE_SUMMARY | PRESCRIPTION | IMAGING | REFERRAL | INSURANCE
  | OTHER

fun document_type_value :: "DocumentType \<Rightarrow> str" where
  "document_type_value LAB_REPORT = lit ''LAB_REPORT''"
| "document_type_value DISCHARGE_SUMMARY = lit ''DISCHARGE_SUMMARY''"
| "document_type_value PRESCRIPTION = lit ''PRESCRIPTION''"
| "document_type_value IMAGING = lit ''IMAGING''"
| "document_type_value REFERRAL = lit ''REFERRAL''"
| "document_type_value INSURANCE = lit ''INSURANCE''"
| "document_type_value DocumentType.OTHER = lit ''OTHER''"

fun get_document_type_display :: "DocumentType \<Rightarrow> str" where
  "get_document_type_display LAB_REPORT = lit ''Lab Report''"
| "get_document_type_display DISCHARGE_SUMMARY = lit ''Discharge Summary''"
| "get_document_type_display PRESCRIPTION = lit ''Prescription''"
| "get_document_type_display IMAGING = lit ''Imaging Report''"
| "get_document_type_display REFERRAL = lit ''Referral Letter''"
| "get_document_type_display INSURANCE = lit ''Insurance Document''"
| "get_document_type_display DocumentType.OTHER = lit ''Other''"

text \<open>
  A \<^verbatim>\<open>datetime.date\<close>; \<^verbatim>\<open>str(date)\<close> is the ISO form \<^verbatim>\<open>YYYY-MM-DD\<close>, zero padded.
\<close>

record date =
  year :: nat
  month :: nat
  day :: nat

definition digit :: "nat \<Rightarrow> nat" where
  "digit n = 48 + n mod 10"

definition date_str :: "date \<Rightarrow> str" where
  "date_str d =
     [digit (year d div 1000), digit (year d div 100), digit (year d div 10), digit (year d),
      45, digit (month d div 10), digit (month d),
      45, digit (day d div 10), digit (day d)]"

definition date_le :: "date \<Rightarrow> date \<Rightarrow> bool" where
  "date_le a b =
     (year a < year b \<or> (year a = year b \<and>
        (month a < month b \<or> (month a = month b \<and> day a \<le> day b))))"

text \<open>
  Modelled from the spec: \<^verbatim>\<open>apps.common.models.base.BaseModel\<close> is not among the sources;
  the spec gives every entity an opaque identity, a soft-delete flag and a creation
  timestamp. The owner key \<^verbatim>\<open>user\<close>, which both models declare themselves with the same
  shape, is kept here as well so that both records share the selector.
\<close>

record base_model =
  pk :: nat
  user :: nat
  is_deleted :: bool
  created_at :: nat

text \<open>
  \<^verbatim>\<open>MedicalRecord\<close>. \<^verbatim>\<open>status\<close> and \<^verbatim>\<open>severity\<close> stay text: assembly tests them for
  emptiness and prints the stored value. \<^verbatim>\<open>data\<close> is the dict the field defaults to, in
  insertion order, each value held as the text \<^verbatim>\<open>str(val)\<close> gives.
\<close>

record medical_record = base_model +
  record_type :: RecordType
  title :: str
  description :: str
  date_recorded :: "date option"
  provider :: str
  status :: str
  severity :: str
  data :: "(str \<times> str) list"

text \<open>
  Modelled from the spec: \<^verbatim>\<open>apps.common.encryption.EncryptedTextField\<close>, the type of
  \<^verbatim>\<open>description\<close> and \<^verbatim>\<open>extracted_text\<close>, is not among the sources; both fields are the
  plain text the spec describes, which a query compares as text.
\<close>

text \<open>\<^verbatim>\<open>MedicalDocument\<close>; the stored file itself is left out.\<close>

record medical_document = base_model +
  linked_record :: "nat option"
  original_filename :: str
  document_type :: DocumentType
  extracted_text :: str
  file_size :: nat

section \<open>The store and its queries\<close>

datatype audit_changes =
  DocumentCreated str DocumentType nat

record audit_entry =
  user_id :: nat
  action :: str
  resource_type :: str
  resource_id :: nat
  ip_address :: "str option"
  user_agent :: str
  changes :: audit_changes

text \<open>
  The tables hold their rows in insertion order. \<^verbatim>\<open>nulls_largest\<close> is the one property of
  the database backend the queries of this file depend on: whether \<^verbatim>\<open>NULL\<close> sorts above
  every value (PostgreSQL) or below (SQLite, MySQL). The settings that pick the backend
  are not among the sources.
\<close>

record store =
  medical_records :: "medical_record list"
  medical_documents :: "medical_document list"
  audit_log :: "audit_entry list"
  nulls_largest :: bool

text \<open>
  \<^verbatim>\<open>QuerySet.order_by\<close>: the rows sorted by a comparison \<^verbatim>\<open>le\<close>; rows the comparison
  ties keep their table order (a database promises no order among them).
\<close>

fun insert_row :: "('a \<Rightarrow> 'a \<Rightarrow> bool) \<Rightarrow> 'a \<Rightarrow> 'a list \<Rightarrow> 'a list" where
  "insert_row le x [] = [x]"
| "insert_row le x (y # ys) = (if le x y then x # y # ys else y # insert_row le x ys)"

fun order_by :: "('a \<Rightarrow> 'a \<Rightarrow> bool) \<Rightarrow> 'a list \<Rightarrow> 'a list" where
  "order_by le [] = []"
| "order_by le (x # xs) = insert_row le x (order_by le xs)"

text \<open>
  \<^verbatim>\<open>"-date_recorded"\<close>: descending, so a later date comes first, and a \<^verbatim>\<open>NULL\<close> comes
  first exactly when the backend sorts it above every value.
\<close>

fun date_recorded_desc :: "bool \<Rightarrow> date option \<Rightarrow> date option \<Rightarrow> bool" where
  "date_recorded_desc nl None None = True"
| "date_recorded_desc nl None (Some b) = nl"
| "date_recorded_desc nl (Some a) None = (\<not> nl)"
| "date_recorded_desc nl (Some a) (Some b) = date_le b a"

text \<open>
  \<^verbatim>\<open>order_by("record_type", "-date_recorded")\<close>: the column \<^verbatim>\<open>record_type\<close> is a
  \<^verbatim>\<open>CharField\<close>, so rows compare by the stored text first.
\<close>

definition by_record_type_date :: "bool \<Rightarrow> medical_record \<Rightarrow> medical_record \<Rightarrow> bool" where
  "by_record_type_date nl a b =
     (record_type_value (record_type a) < record_type_value (record_type b)
      \<or> (record_type_value (record_type a) = record_type_value (record_type b)
          \<and> date_recorded_desc nl (date_recorded a) (date_recorded b)))"

text \<open>\<^verbatim>\<open>MedicalDocument.Meta.ordering = ["-created_at"]\<close>.\<close>

definition by_created_at_desc :: "medical_document \<Rightarrow> medical_document \<Rightarrow> bool" where
  "by_created_at_desc a b = (created_at b \<le> created_at a)"

text \<open>
  \<^verbatim>\<open>MedicalRecord.objects.filter(user=user, is_deleted=False)
     .order_by("record_type", "-date_recorded")\<close>
\<close>

definition records_query :: "store \<Rightarrow> nat \<Rightarrow> medical_record list" where
  "records_query st usr =
     order_by (by_record_type_date (nulls_largest st))
       (filter (\<lambda>r. user r = usr \<and> \<not> is_deleted r) (medical_records st))"

text \<open>
  \<^verbatim>\<open>MedicalDocument.objects.filter(user=user, is_deleted=False).exclude(extracted_text="")\<close>
  in the model's default ordering, before the slice.
\<close>

definition documents_with_text :: "store \<Rightarrow> nat \<Rightarrow> medical_document list" where
  "documents_with_text st usr =
     order_by by_created_at_desc
       (filter (\<lambda>d. user d = usr \<and> \<not> is_deleted d \<and> extracted_text d \<noteq> [])
          (medical_documents st))"

text \<open>The same queryset sliced with \<^verbatim>\<open>[:5]\<close>.\<close>

definition documents_query :: "store \<Rightarrow> nat \<Rightarrow> medical_document list" where
  "documents_query st usr = take 5 (documents_with_text st usr)"

section \<open>Context assembly: \<^verbatim>\<open>RecordService.get_patient_medical_context\<close>\<close>

text \<open>The summary line of one record.\<close>

definition record_line :: "medical_record \<Rightarrow> str" where
  "record_line r =
     lit ''- '' @ title r
     @ (if status r \<noteq> [] then lit '' (Status: '' @ status r @ lit '')'' else [])
     @ (if severity r \<noteq> [] then lit '' [Severity: '' @ severity r @ lit '']'' else [])
     @ (case date_recorded r of
          None \<Rightarrow> []
        | Some d \<Rightarrow> [32, 8212, 32] @ date_str d)"

definition details_line :: "medical_record \<Rightarrow> str" where
  "details_line r = lit ''  Details: '' @ take 500 (description r)"

definition data_line :: "str \<times> str \<Rightarrow> str" where
  "data_line kv = lit ''  '' @ fst kv @ lit '': '' @ snd kv"

definition type_heading :: "RecordType \<Rightarrow> str" where
  "type_heading t = 10 # lit ''## '' @ get_record_type_display t"

text \<open>
  The loop over the records; each call returns the lines one iteration appends to
  \<^verbatim>\<open>sections\<close>, followed by those of the remaining iterations. \<^verbatim>\<open>current_type\<close> starts as
  \<^verbatim>\<open>None\<close>.
\<close>

fun record_sections :: "RecordType option \<Rightarrow> medical_record list \<Rightarrow> str list" where
  "record_sections current_type [] = []"
| "record_sections current_type (r # rs) =
     (if Some (record_type r) \<noteq> current_type then [type_heading (record_type r)] else [])
     @ [record_line r]
     @ (if description r \<noteq> [] then [details_line r] else [])
     @ map data_line (data r)
     @ record_sections (Some (record_type r)) rs"

definition documents_heading :: str where
  "documents_heading = 10 # lit ''## Uploaded Medical Documents''"

definition document_heading :: "medical_document \<Rightarrow> str" where
  "document_heading doc =
     10 # lit ''### '' @ original_filename doc @ lit '' (''
       @ get_document_type_display (document_type doc) @ lit '')''"

fun document_lines :: "medical_document list \<Rightarrow> str list" where
  "document_lines [] = []"
| "document_lines (doc # docs) =
     [document_heading doc, take 2000 (extracted_text doc)] @ document_lines docs"

text \<open>The lines the \<^verbatim>\<open>if documents.exists():\<close> block appends.\<close>

definition document_sections :: "medical_document list \<Rightarrow> str list" where
  "document_sections documents =
     (if documents \<noteq> [] then documents_heading # document_lines documents else [])"

text \<open>The list \<^verbatim>\<open>sections\<close> when the function reaches the final join.\<close>

definition context_sections :: "store \<Rightarrow> nat \<Rightarrow> str list" where
  "context_sections st usr =
     record_sections None (records_query st usr) @ document_sections (documents_query st usr)"

definition get_patient_medical_context :: "store \<Rightarrow> nat \<Rightarrow> str" where
  "get_patient_medical_context st usr =
     (if records_query st usr = [] then []
      else take 10000 (str_join [10] (context_sections st usr)))"

section \<open>Text extraction: \<^verbatim>\<open>RecordService._extract_pdf_text\<close>\<close>

text \<open>An uploaded file: its name and its bytes; \<^verbatim>\<open>file.size\<close> is the number of bytes.\<close>

record uploaded_file =
  name :: str
  content :: "nat list"

definition upload_size :: "uploaded_file \<Rightarrow> nat" where
  "upload_size file = length (content file)"

text \<open>
  PyPDF2 is outside the repository and is a parameter. An exception (a subclass of
  \<^verbatim>\<open>Exception\<close>) is its message. A page is what \<^verbatim>\<open>page.extract_text()\<close> does on it:
  raise, or return text (\<^verbatim>\<open>None\<close> and \<^verbatim>\<open>""\<close> are both the empty text, the source tests
  only truth). The reader is what \<^verbatim>\<open>PdfReader(io.BytesIO(file.read()))\<close> and the walk
  over \<^verbatim>\<open>reader.pages\<close> do on the bytes: raise, or yield the pages.
\<close>

type_synonym exn = str
type_synonym page = "exn + str"
type_synonym pdf_reader = "nat list \<Rightarrow> exn + page list"

text \<open>The \<^verbatim>\<open>for page in reader.pages\<close> loop with its accumulator \<^verbatim>\<open>text_parts\<close>.\<close>

fun collect_text_parts :: "page list \<Rightarrow> str list \<Rightarrow> exn + str list" where
  "collect_text_parts [] text_parts = Inr text_parts"
| "collect_text_parts (page # pages) text_parts =
     (case page of
        Inl e \<Rightarrow> Inl e
      | Inr page_text \<Rightarrow>
          collect_text_parts pages
            (if page_text \<noteq> [] then text_parts @ [strip page_text] else text_parts))"

text \<open>The body of the \<^verbatim>\<open>try\<close> block.\<close>

definition extract_pdf_text_try :: "pdf_reader \<Rightarrow> uploaded_file \<Rightarrow> exn + str" where
  "extract_pdf_text_try PdfReader file =
     (case PdfReader (content file) of
        Inl e \<Rightarrow> Inl e
      | Inr pages \<Rightarrow>
          (case collect_text_parts pages [] of
             Inl e \<Rightarrow> Inl e
           | Inr text_parts \<Rightarrow> Inr (take 50000 (str_join [10, 10] text_parts))))"

text \<open>
  The function with its \<^verbatim>\<open>except Exception\<close> handler: the text returned and the
  warnings logged.
\<close>

definition extract_pdf_text :: "pdf_reader \<Rightarrow> uploaded_file \<Rightarrow> str \<times> str list" where
  "extract_pdf_text PdfReader file =
     (case extract_pdf_text_try PdfReader file of
        Inl e \<Rightarrow> ([], [lit ''PDF extraction failed: '' @ e])
      | Inr text \<Rightarrow> (text, []))"

section \<open>Upload: \<^verbatim>\<open>RecordService.upload_document\<close>\<close>

text \<open>
  Modelled from the spec: \<^verbatim>\<open>apps.audit.services.audit_service.AuditService\<close> is not among
  the sources; the spec describes an append-only log that receives one event per action.
\<close>

definition log_action :: "audit_entry \<Rightarrow> store \<Rightarrow> store" where
  "log_action entry st = st\<lparr>audit_log := audit_log st @ [entry]\<rparr>"

text \<open>
  \<^verbatim>\<open>new_pk\<close> and \<^verbatim>\<open>now\<close> are the key and the timestamp \<^verbatim>\<open>objects.create\<close> gives the new
  row. The result is the document, the store after the transaction, and the warnings
  logged.
\<close>

definition upload_document ::
  "pdf_reader \<Rightarrow> store \<Rightarrow> nat \<Rightarrow> nat \<Rightarrow> nat \<Rightarrow> uploaded_file \<Rightarrow> DocumentType
     \<Rightarrow> medical_record option \<Rightarrow> str option \<Rightarrow> str
     \<Rightarrow> medical_document \<times> store \<times> str list" where
  "upload_document PdfReader st new_pk now usr file dtype rec ip agent =
     (let extraction =
            (if endswith_pdf (name file) then extract_pdf_text PdfReader file else ([], []));
          doc = \<lparr>pk = new_pk, user = usr, is_deleted = False, created_at = now,
                 linked_record = map_option pk rec,
                 original_filename = name file,
                 document_type = dtype,
                 extracted_text = fst extraction,
                 file_size = upload_size file\<rparr>;
          st1 = st\<lparr>medical_documents := medical_documents st @ [doc]\<rparr>;
          st2 = log_action
                  \<lparr>user_id = usr, action = lit ''CREATE'',
                   resource_type = lit ''MedicalDocument'', resource_id = pk doc,
                   ip_address = ip, user_agent = agent,
                   changes = DocumentCreated (name file) dtype (length (fst extraction))\<rparr>
                  st1
      in (doc, st2, snd extraction))"

section \<open>The upload view: \<^verbatim>\<open>MedicalDocumentUploadView.post\<close>\<close>

text \<open>
  The multipart form of a request: the uploaded file if any, the text of the field
  \<^verbatim>\<open>document_type\<close> if sent, and the field \<^verbatim>\<open>record_id\<close>.
\<close>

datatype record_id_field = NoRecordId | BlankRecordId | BadRecordId | RecordId nat

record upload_request =
  request_user :: nat
  FILES_file :: "uploaded_file option"
  data_document_type :: "str option"
  data_record_id :: record_id_field
  REMOTE_ADDR :: "str option"
  HTTP_USER_AGENT :: "str option"

definition DocumentType_choices :: "DocumentType list" where
  "DocumentType_choices =
     [LAB_REPORT, DISCHARGE_SUMMARY, PRESCRIPTION, IMAGING, REFERRAL, INSURANCE,
      DocumentType.OTHER]"

text \<open>
  \<^verbatim>\<open>UploadDocumentSerializer\<close>: \<^verbatim>\<open>None\<close> is the validation error that
  \<^verbatim>\<open>is_valid(raise_exception=True)\<close> raises. Both fields are optional; a blank form
  field counts as not sent.
\<close>

definition UploadDocumentSerializer ::
  "upload_request \<Rightarrow> (DocumentType \<times> nat option) option" where
  "UploadDocumentSerializer request =
     (let dtype =
            (case data_document_type request of
               None \<Rightarrow> Some DocumentType.OTHER
             | Some s \<Rightarrow>
                 if s = [] then Some DocumentType.OTHER
                 else find (\<lambda>t. document_type_value t = s) DocumentType_choices)
      in case dtype of
           None \<Rightarrow> None
         | Some t \<Rightarrow>
             (case data_record_id request of
                NoRecordId \<Rightarrow> Some (t, None)
              | BlankRecordId \<Rightarrow> Some (t, None)
              | BadRecordId \<Rightarrow> None
              | RecordId rid \<Rightarrow> Some (t, Some rid)))"

datatype response =
  HTTP_400_BAD_REQUEST str
  | HTTP_400_VALIDATION
  | HTTP_201_CREATED medical_document

text \<open>
  The view. A file object is false when its name is empty. The record lookup is by
  primary key, so \<^verbatim>\<open>.first()\<close> has at most one row to choose from.
\<close>

definition post ::
  "pdf_reader \<Rightarrow> store \<Rightarrow> nat \<Rightarrow> nat \<Rightarrow> upload_request \<Rightarrow> response \<times> store \<times> str list" where
  "post PdfReader st new_pk now request =
     (case FILES_file request of
        None \<Rightarrow> (HTTP_400_BAD_REQUEST (lit ''File is required.''), st, [])
      | Some file \<Rightarrow>
          if name file = [] then (HTTP_400_BAD_REQUEST (lit ''File is required.''), st, [])
          else if upload_size file > 20 * 1024 * 1024
          then (HTTP_400_BAD_REQUEST (lit ''File must be smaller than 20MB.''), st, [])
          else
            (case UploadDocumentSerializer request of
               None \<Rightarrow> (HTTP_400_VALIDATION, st, [])
             | Some validated \<Rightarrow>
                 (let rec =
                        (case snd validated of
                           None \<Rightarrow> None
                         | Some rid \<Rightarrow>
                             find (\<lambda>r. pk r = rid \<and> user r = request_user request
                                        \<and> \<not> is_deleted r)
                               (medical_records st));
                      result =
                        upload_document PdfReader st new_pk now (request_user request) file
                          (fst validated) rec (REMOTE_ADDR request)
                          (case HTTP_USER_AGENT request of None \<Rightarrow> [] | Some a \<Rightarrow> a)
                  in (HTTP_201_CREATED (fst result), snd result))))"

text \<open>What \<^verbatim>\<open>order_by\<close> needs of a comparison to return sorted rows.\<close>

definition total_preorder :: "('a \<Rightarrow> 'a \<Rightarrow> bool) \<Rightarrow> bool" where
  "total_preorder le = ((\<forall>a b. le a b \<or> le b a) \<and> (\<forall>a b c. le a b \<longrightarrow> le b c \<longrightarrow> le a c))"

section \<open>Sample data\<close>

text \<open>A record and a document of patient 7 from which the other samples are built.\<close>

definition sample_record :: medical_record where
  "sample_record =
     \<lparr>pk = 1, user = 7, is_deleted = False, created_at = 100,
      record_type = MEDICATION, title = lit ''A'', description = [],
      date_recorded = None, provider = [], status = lit ''ACTIVE'', severity = [],
      data = []\<rparr>"

definition sample_document :: medical_document where
  "sample_document =
     \<lparr>pk = 1, user = 7, is_deleted = False, created_at = 100,
      linked_record = None, original_filename = lit ''a.pdf'',
      document_type = LAB_REPORT, extracted_text = lit ''Hb 13.5'', file_size = 2048\<rparr>"

text \<open>
  Four active records of patient 7 in the order they were inserted: two dated
  medications, an undated allergy, an undated medication.
\<close>

definition medication_2024 :: medical_record where
  "medication_2024 = sample_record\<lparr>date_recorded := Some \<lparr>year = 2024, month = 1, day = 5\<rparr>\<rparr>"

definition allergy_undated :: medical_record where
  "allergy_undated = sample_record\<lparr>pk := 2, record_type := ALLERGY, title := lit ''B''\<rparr>"

definition medication_2025 :: medical_record where
  "medication_2025 =
     sample_record\<lparr>pk := 3, title := lit ''C'',
       date_recorded := Some \<lparr>year = 2025, month = 2, day = 1\<rparr>\<rparr>"

definition medication_undated :: medical_record where
  "medication_undated = sample_record\<lparr>pk := 4, title := lit ''D''\<rparr>"

definition ordering_store :: "bool \<Rightarrow> store" where
  "ordering_store nl =
     \<lparr>medical_records = [medication_2024, allergy_undated, medication_2025, medication_undated],
      medical_documents = [], audit_log = [], nulls_largest = nl\<rparr>"

text \<open>The position of a member in the declared list of choices.\<close>

fun index_of :: "'a \<Rightarrow> 'a list \<Rightarrow> nat" where
  "index_of x [] = 0"
| "index_of x (y # ys) = (if x = y then 0 else Suc (index_of x ys))"

definition declaration_index :: "RecordType \<Rightarrow> nat" where
  "declaration_index t = index_of t RecordType_choices"

text \<open>
  Patient 7 has a deleted record only, patient 8 an active one, and patient 7 has a
  document with extracted text.
\<close>

definition documents_only_store :: store where
  "documents_only_store =
     \<lparr>medical_records = [sample_record\<lparr>is_deleted := True\<rparr>, sample_record\<lparr>pk := 2, user := 8\<rparr>],
      medical_documents = [sample_document], audit_log = [], nulls_largest = False\<rparr>"

text \<open>
  One active record of patient 7 whose structured data holds a note of 20,000
  characters.
\<close>

definition long_note_record :: medical_record where
  "long_note_record = sample_record\<lparr>data := [(lit ''note'', replicate 20000 120)]\<rparr>"

definition long_note_store :: store where
  "long_note_store =
     \<lparr>medical_records = [long_note_record], medical_documents = [], audit_log = [],
      nulls_largest = False\<rparr>"

text \<open>A second undated medication, titled C.\<close>

definition medication_c :: medical_record where
  "medication_c = sample_record\<lparr>pk := 5, title := lit ''C''\<rparr>"

text \<open>
  A line is a category heading when it begins with a newline and \<^verbatim>\<open>## \<close>; the other
  lines of the record section begin with \<^verbatim>\<open>-\<close> or a blank.
\<close>

definition is_heading :: "str \<Rightarrow> bool" where
  "is_heading line = (take 4 line = 10 # lit ''## '')"

text \<open>
  Patient 7 with one record whose description has 600 characters and one document
  whose extracted text has 3,000.
\<close>

definition long_description_record :: medical_record where
  "long_description_record = sample_record\<lparr>description := replicate 600 100\<rparr>"

definition long_text_document :: medical_document where
  "long_text_document = sample_document\<lparr>extracted_text := replicate 3000 120\<rparr>"

definition truncation_store :: store where
  "truncation_store =
     \<lparr>medical_records = [long_description_record],
      medical_documents = [long_text_document], audit_log = [], nulls_largest = False\<rparr>"

text \<open>
  A document of patient 7 created at time \<^verbatim>\<open>n\<close>, named after it. The store holds seven
  such documents with text, in no particular order, and three that do not qualify: a
  newer one without text, a newer deleted one, and one of patient 8.
\<close>

definition document_at :: "nat \<Rightarrow> medical_document" where
  "document_at n =
     sample_document\<lparr>pk := n, created_at := n, original_filename := 100 # digit n # lit ''.pdf''\<rparr>"

definition seven_documents_store :: store where
  "seven_documents_store =
     \<lparr>medical_records = [sample_record],
      medical_documents =
        [document_at 3, document_at 7, (document_at 9)\<lparr>extracted_text := []\<rparr>,
         document_at 1, document_at 5, (document_at 8)\<lparr>is_deleted := True\<rparr>,
         document_at 2, document_at 6, document_at 4, (document_at 10)\<lparr>user := 8\<rparr>],
      audit_log = [], nulls_largest = False\<rparr>"

text \<open>
  A document whose extracted text is a blank, a newline and a tab. The store holds five
  of them, each more recent than the one document with readable text.
\<close>

definition blank_document_at :: "nat \<Rightarrow> medical_document" where
  "blank_document_at n = (document_at n)\<lparr>extracted_text := [32, 10, 9]\<rparr>"

definition blank_documents_store :: store where
  "blank_documents_store =
     \<lparr>medical_records = [sample_record],
      medical_documents =
        [document_at 1, blank_document_at 2, blank_document_at 3, blank_document_at 4,
         blank_document_at 5, blank_document_at 6],
      audit_log = [], nulls_largest = False\<rparr>"

text \<open>
  Uploads and readers. The corrupt reader rejects every payload; the paged reader
  yields the given pages whatever the bytes.
\<close>

definition sample_upload :: uploaded_file where
  "sample_upload = \<lparr>name = lit ''Scan.PDF'', content = [37, 80, 68, 70]\<rparr>"

definition corrupt_reader :: pdf_reader where
  "corrupt_reader bytes = Inl (lit ''EOF marker not found'')"

definition paged_reader :: "page list \<Rightarrow> pdf_reader" where
  "paged_reader pages bytes = Inr pages"

definition empty_store :: store where
  "empty_store =
     \<lparr>medical_records = [], medical_documents = [], audit_log = [], nulls_largest = False\<rparr>"

text \<open>An upload of \<^verbatim>\<open>n\<close> zero bytes, and a request of patient 7 that carries a file.\<close>

definition payload_of_size :: "nat \<Rightarrow> uploaded_file" where
  "payload_of_size n = \<lparr>name = lit ''scan.pdf'', content = replicate n 0\<rparr>"

definition upload_request_with :: "uploaded_file \<Rightarrow> upload_request" where
  "upload_request_with file =
     \<lparr>request_user = 7, FILES_file = Some file,
      data_document_type = Some (lit ''LAB_REPORT''), data_record_id = NoRecordId,
      REMOTE_ADDR = None, HTTP_USER_AGENT = None\<rparr>"

text \<open>
  The extraction as the specification words it, on the texts of the pages: strip each
  text, skip the units left with no text, join the non-empty units with a blank line,
  cap the result.
\<close>

definition spec_extract_text :: "str list \<Rightarrow> str" where
  "spec_extract_text texts =
     take 50000 (str_join [10, 10] (filter (\<lambda>t. t \<noteq> []) (map strip texts)))"

section \<open>Properties of the queries\<close>

lemma mset_insert_row: "mset (insert_row le x xs) = add_mset x (mset xs)"
  by (induction xs) simp_all

lemma mset_order_by: "mset (order_by le xs) = mset xs"
  by (induction xs) (simp_all add: mset_insert_row)

lemma set_order_by: "set (order_by le xs) = set xs"
  using mset_order_by [of le xs] by (metis set_mset_mset)

lemma length_order_by: "length (order_by le xs) = length xs"
  using mset_order_by [of le xs] by (metis size_mset)

lemma order_by_Nil_iff: "order_by le xs = [] \<longleftrightarrow> xs = []"
  using length_order_by [of le xs] by (metis length_0_conv)

lemma set_insert_row: "set (insert_row le x xs) = insert x (set xs)"
  using mset_insert_row [of le x xs] by (metis set_mset_add_mset_insert set_mset_mset)

lemma sorted_insert_row:
  assumes "total_preorder le" "sorted_wrt le xs"
  shows "sorted_wrt le (insert_row le x xs)"
  using assms(2)
proof (induction xs)
  case Nil
  then show ?case by simp
next
  case (Cons y ys)
  from assms(1) have tot: "\<And>a b. le a b \<or> le b a" and tr: "\<And>a b c. le a b \<Longrightarrow> le b c \<Longrightarrow> le a c"
    unfolding total_preorder_def by blast+
  show ?case
  proof (cases "le x y")
    case True
    with Cons.prems tr show ?thesis by auto
  next
    case False
    with tot have "le y x" by blast
    with Cons False show ?thesis by (auto simp: set_insert_row)
  qed
qed

lemma sorted_order_by: "total_preorder le \<Longrightarrow> sorted_wrt le (order_by le xs)"
  by (induction xs) (simp_all add: sorted_insert_row)

lemma date_le_total: "date_le a b \<or> date_le b a"
  unfolding date_le_def by linarith

lemma date_le_trans: "date_le a b \<Longrightarrow> date_le b c \<Longrightarrow> date_le a c"
  unfolding date_le_def by linarith

lemma date_recorded_desc_total: "date_recorded_desc nl a b \<or> date_recorded_desc nl b a"
proof (cases a)
  case None
  then show ?thesis by (cases b) simp_all
next
  case (Some x)
  then show ?thesis using date_le_total by (cases b) simp_all
qed

lemma date_recorded_desc_trans:
  assumes "date_recorded_desc nl a b" "date_recorded_desc nl b c"
  shows "date_recorded_desc nl a c"
proof (cases a)
  case None
  with assms show ?thesis by (cases b; cases c) simp_all
next
  case (Some x)
  with assms show ?thesis by (cases b; cases c) (simp_all, erule (1) date_le_trans)
qed

lemma by_record_type_date_total: "by_record_type_date nl a b \<or> by_record_type_date nl b a"
proof -
  let ?va = "record_type_value (record_type a)" and ?vb = "record_type_value (record_type b)"
  have "?va < ?vb \<or> ?vb < ?va \<or> ?va = ?vb" by (rule less_linear [THEN disjE]) blast+
  with date_recorded_desc_total [of nl "date_recorded a" "date_recorded b"]
  show ?thesis unfolding by_record_type_date_def by auto
qed

lemma by_record_type_date_trans:
  assumes "by_record_type_date nl a b" "by_record_type_date nl b c"
  shows "by_record_type_date nl a c"
proof -
  let ?va = "record_type_value (record_type a)" and ?vb = "record_type_value (record_type b)"
  let ?vc = "record_type_value (record_type c)"
  from assms
  have ab: "?va < ?vb \<or> (?va = ?vb \<and> date_recorded_desc nl (date_recorded a) (date_recorded b))"
    and bc: "?vb < ?vc \<or> (?vb = ?vc \<and> date_recorded_desc nl (date_recorded b) (date_recorded c))"
    unfolding by_record_type_date_def by blast+
  have tr: "?va < ?vb \<Longrightarrow> ?vb < ?vc \<Longrightarrow> ?va < ?vc" by (rule less_trans)
  from ab bc tr
    date_recorded_desc_trans [of nl "date_recorded a" "date_recorded b" "date_recorded c"]
  show ?thesis unfolding by_record_type_date_def by metis
qed

lemma total_preorder_by_record_type_date: "total_preorder (by_record_type_date nl)"
  unfolding total_preorder_def
  using by_record_type_date_total by_record_type_date_trans by blast

lemma total_preorder_by_created_at_desc: "total_preorder by_created_at_desc"
  unfolding total_preorder_def by_created_at_desc_def by auto

section \<open>The overall cap\<close>

lemma long_note_query: "records_query long_note_store 7 = [long_note_record]"
  by (simp add: records_query_def long_note_store_def long_note_record_def sample_record_def)

lemma long_note_sections:
  "context_sections long_note_store 7
     = [10 # lit ''## Medication'', lit ''- A (Status: ACTIVE)'',
        lit ''  note: '' @ replicate 20000 120]"
  by (simp add: context_sections_def long_note_query documents_query_def
      documents_with_text_def document_sections_def)
     (simp add: long_note_store_def long_note_record_def sample_record_def record_line_def
       type_heading_def data_line_def lit_def)

text \<open>
  C1. Whatever the store holds and whoever the patient is, the context returned has at most
  10,000 characters; and whenever the patient has an active record, the context is the
  first 10,000 characters of the whole newline-joined list of sections, the slice being
  the last step.
\<close>

theorem context_hard_cap:
  "length (get_patient_medical_context st usr) \<le> 10000
   \<and> (records_query st usr \<noteq> [] \<longrightarrow>
        get_patient_medical_context st usr
          = take 10000 (str_join [10] (context_sections st usr)))"
  by (simp add: get_patient_medical_context_def)

text \<open>
  The joined sections of the sample store have 20,044 characters; the context has
  exactly 10,000.
\<close>

theorem context_hard_cap_witness:
  "records_query long_note_store 7 \<noteq> []
   \<and> length (str_join [10] (context_sections long_note_store 7)) = 20044
   \<and> length (get_patient_medical_context long_note_store 7) = 10000
   \<and> get_patient_medical_context long_note_store 7
       = take 10000 (str_join [10] (context_sections long_note_store 7))"
  using context_hard_cap [of long_note_store 7]
  by (simp add: long_note_query long_note_sections lit_def)

section \<open>The order of the records\<close>

lemmas ordering_samples =
  ordering_store_def medication_2024_def allergy_undated_def medication_2025_def
  medication_undated_def sample_record_def

lemma ordering_query_nulls_last:
  "records_query (ordering_store False) 7
     = [allergy_undated, medication_2025, medication_2024, medication_undated]"
  by (simp add: records_query_def by_record_type_date_def date_le_def lit_def ordering_samples)

lemma ordering_query_nulls_first:
  "records_query (ordering_store True) 7
     = [allergy_undated, medication_undated, medication_2025, medication_2024]"
  by (simp add: records_query_def by_record_type_date_def date_le_def lit_def ordering_samples)

text \<open>
  C2, as stated, fails. The sample store holds a medication inserted before an allergy.
  \<^verbatim>\<open>MEDICATION\<close> is declared before \<^verbatim>\<open>ALLERGY\<close>, yet the query hands the allergy to
  assembly first, on either kind of backend: the positions of the categories in the
  declared list are not ascending along the result.
\<close>

theorem declaration_order_counterexample:
  "\<not> sorted (map (\<lambda>r. declaration_index (record_type r)) (records_query (ordering_store False) 7))
   \<and> \<not> sorted (map (\<lambda>r. declaration_index (record_type r)) (records_query (ordering_store True) 7))"
  by (simp add: ordering_query_nulls_last ordering_query_nulls_first)
     (simp add: ordering_samples declaration_index_def RecordType_choices_def)

lemma stored_values_ascending:
  "sorted_wrt (\<lambda>s t. record_type_value s < record_type_value t)
     [ALLERGY, CONDITION, FAMILY_HISTORY, IMMUNIZATION, LAB_RESULT, MEDICATION,
      RecordType.OTHER, PROCEDURE, VITAL]"
  by (simp add: lit_def)

text \<open>
  C2, amended. The records fed to assembly are the patient's active records, each once,
  ordered by the stored text of the category, ascending, which is the alphabetical order
  \<^verbatim>\<open>ALLERGY\<close>, \<^verbatim>\<open>CONDITION\<close>, \<^verbatim>\<open>FAMILY_HISTORY\<close>, \<^verbatim>\<open>IMMUNIZATION\<close>, \<^verbatim>\<open>LAB_RESULT\<close>,
  \<^verbatim>\<open>MEDICATION\<close>, \<^verbatim>\<open>OTHER\<close>, \<^verbatim>\<open>PROCEDURE\<close>, \<^verbatim>\<open>VITAL\<close>; within one category an earlier
  record never has an earlier date than a later record, and a record without a date
  stands after the dated ones when the backend sorts \<^verbatim>\<open>NULL\<close> below every value, before
  them when it sorts \<^verbatim>\<open>NULL\<close> above.
\<close>

theorem records_query_order:
  "mset (records_query st usr)
     = mset (filter (\<lambda>r. user r = usr \<and> \<not> is_deleted r) (medical_records st))
   \<and> sorted_wrt
       (\<lambda>a b. record_type_value (record_type a) \<le> record_type_value (record_type b)
          \<and> (record_type a = record_type b \<longrightarrow>
                date_recorded_desc (nulls_largest st) (date_recorded a) (date_recorded b)))
       (records_query st usr)
   \<and> sorted_wrt (\<lambda>s t. record_type_value s < record_type_value t)
       [ALLERGY, CONDITION, FAMILY_HISTORY, IMMUNIZATION, LAB_RESULT, MEDICATION,
        RecordType.OTHER, PROCEDURE, VITAL]"
proof -
  let ?le = "by_record_type_date (nulls_largest st)"
  have "sorted_wrt ?le (records_query st usr)"
    unfolding records_query_def
    by (rule sorted_order_by) (rule total_preorder_by_record_type_date)
  moreover have "?le a b \<Longrightarrow>
      record_type_value (record_type a) \<le> record_type_value (record_type b)
      \<and> (record_type a = record_type b \<longrightarrow>
            date_recorded_desc (nulls_largest st) (date_recorded a) (date_recorded b))" for a b
    unfolding by_record_type_date_def by (metis less_imp_le less_irrefl order_refl)
  ultimately have "sorted_wrt
       (\<lambda>a b. record_type_value (record_type a) \<le> record_type_value (record_type b)
          \<and> (record_type a = record_type b \<longrightarrow>
                date_recorded_desc (nulls_largest st) (date_recorded a) (date_recorded b)))
       (records_query st usr)"
    by (rule sorted_wrt_mono_rel [rotated]) blast
  then show ?thesis
    using stored_values_ascending by (simp add: records_query_def mset_order_by)
qed

text \<open>The sample store on a backend of each kind.\<close>

theorem records_query_order_witness:
  "records_query (ordering_store False) 7
     = [allergy_undated, medication_2025, medication_2024, medication_undated]
   \<and> sorted_wrt
       (\<lambda>a b. record_type_value (record_type a) \<le> record_type_value (record_type b)
          \<and> (record_type a = record_type b \<longrightarrow>
                date_recorded_desc False (date_recorded a) (date_recorded b)))
       [allergy_undated, medication_2025, medication_2024, medication_undated]
   \<and> records_query (ordering_store True) 7
     = [allergy_undated, medication_undated, medication_2025, medication_2024]
   \<and> sorted_wrt
       (\<lambda>a b. record_type_value (record_type a) \<le> record_type_value (record_type b)
          \<and> (record_type a = record_type b \<longrightarrow>
                date_recorded_desc True (date_recorded a) (date_recorded b)))
       [allergy_undated, medication_undated, medication_2025, medication_2024]"
  using records_query_order [of "ordering_store False" 7]
    records_query_order [of "ordering_store True" 7]
  by (simp add: ordering_query_nulls_last ordering_query_nulls_first)
     (simp add: ordering_store_def)

section \<open>No records, no context\<close>

text \<open>
  C3. When the patient has no active record, the context is the empty string, whatever
  documents the store holds.
\<close>

theorem empty_records_short_circuit:
  "(\<forall>r \<in> set (medical_records st). user r = usr \<longrightarrow> is_deleted r)
     \<Longrightarrow> get_patient_medical_context st usr = []"
proof -
  assume "\<forall>r \<in> set (medical_records st). user r = usr \<longrightarrow> is_deleted r"
  then have "filter (\<lambda>r. user r = usr \<and> \<not> is_deleted r) (medical_records st) = []"
    by (simp add: filter_empty_conv)
  then have "records_query st usr = []"
    by (simp add: records_query_def)
  then show ?thesis
    by (simp add: get_patient_medical_context_def)
qed

text \<open>
  In the sample store the document query returns a document with text, and the context
  is empty all the same.
\<close>

theorem empty_records_short_circuit_witness:
  "length (medical_records documents_only_store) = 2
   \<and> records_query documents_only_store 7 = []
   \<and> documents_query documents_only_store 7 = [sample_document]
   \<and> extracted_text sample_document \<noteq> []
   \<and> get_patient_medical_context documents_only_store 7 = []"
proof -
  have h: "\<forall>r \<in> set (medical_records documents_only_store). user r = 7 \<longrightarrow> is_deleted r"
    by (simp add: documents_only_store_def sample_record_def)
  have "documents_query documents_only_store 7 = [sample_document]"
    by (simp add: documents_query_def documents_with_text_def documents_only_store_def
        sample_document_def lit_def)
  moreover have "extracted_text sample_document \<noteq> []"
    by (simp add: sample_document_def lit_def)
  moreover have "length (medical_records documents_only_store) = 2"
    by (simp add: documents_only_store_def)
  moreover have "records_query documents_only_store 7 = []"
    by (simp add: records_query_def documents_only_store_def sample_record_def)
  ultimately show ?thesis
    using empty_records_short_circuit [OF h] by simp
qed

section \<open>Category headings\<close>

lemma is_heading_type_heading: "is_heading (type_heading t)"
  by (simp add: is_heading_def type_heading_def lit_def)

lemma not_heading_record_line: "\<not> is_heading (record_line r)"
  by (simp add: is_heading_def record_line_def lit_def)

lemma not_heading_details_line: "\<not> is_heading (details_line r)"
  by (simp add: is_heading_def details_line_def lit_def)

lemma not_heading_data_line: "\<not> is_heading (data_line kv)"
  by (simp add: is_heading_def data_line_def lit_def)

lemma filter_data_lines: "filter is_heading (map data_line kvs) = []"
  by (induction kvs) (simp_all add: not_heading_data_line)

lemma get_record_type_display_inj:
  "get_record_type_display s = get_record_type_display t \<Longrightarrow> s = t"
  by (cases s; cases t) (simp_all add: lit_def)

lemma remdups_adj_hd_tl: "remdups_adj (x # xs) = x # tl (remdups_adj (x # xs))"
  by (induction xs) simp_all

lemma map_remdups_adj_Cons:
  "map f (remdups_adj (x # xs)) = f x # map f (tl (remdups_adj (x # xs)))"
  using remdups_adj_hd_tl [of x xs] by (metis list.simps(9))

lemma headings_after:
  "filter is_heading (record_sections (Some t) rs)
     = map type_heading (tl (remdups_adj (t # map record_type rs)))"
proof (induction rs arbitrary: t)
  case Nil
  show ?case by simp
next
  case (Cons r rs)
  show ?case
    by (simp add: Cons.IH is_heading_type_heading not_heading_record_line
        not_heading_details_line filter_data_lines map_remdups_adj_Cons)
qed

lemma headings_of_sections:
  "filter is_heading (record_sections None rs)
     = map type_heading (remdups_adj (map record_type rs))"
proof (cases rs)
  case Nil
  then show ?thesis by simp
next
  case (Cons r rs')
  then show ?thesis
    by (simp add: headings_after is_heading_type_heading not_heading_record_line
        not_heading_details_line filter_data_lines map_remdups_adj_Cons)
qed

lemma first_line_is_heading:
  "(hd (record_sections cur (r # rs)) = type_heading (record_type r))
     = (cur \<noteq> Some (record_type r))"
  using is_heading_type_heading [of "record_type r"] not_heading_record_line [of r]
  by auto

lemma grouping_example:
  "record_sections None [sample_record, allergy_undated, medication_c]
     = [10 # lit ''## Medication'', lit ''- A (Status: ACTIVE)'',
        10 # lit ''## Allergy'', lit ''- B (Status: ACTIVE)'',
        10 # lit ''## Medication'', lit ''- C (Status: ACTIVE)'']"
  by (simp add: sample_record_def allergy_undated_def medication_c_def type_heading_def
      record_line_def lit_def)

text \<open>
  C8. The category headings in the record section are, in order, the headings of the
  maximal runs of equal categories in the given order of the records, one per run; the
  first line a record contributes is its category heading exactly when its category
  differs from that of the record before it (or it is the first record); and for
  \<^verbatim>\<open>MEDICATION\<close> A, \<^verbatim>\<open>ALLERGY\<close> B, \<^verbatim>\<open>MEDICATION\<close> C the section is a Medication heading,
  A, an Allergy heading, B, a second Medication heading, C.
\<close>

theorem heading_per_run:
  "filter is_heading (record_sections None rs)
     = map type_heading (remdups_adj (map record_type rs))
   \<and> ((hd (record_sections cur (r # rest)) = type_heading (record_type r))
        = (cur \<noteq> Some (record_type r)))
   \<and> record_sections None [sample_record, allergy_undated, medication_c]
       = [10 # lit ''## Medication'', lit ''- A (Status: ACTIVE)'',
          10 # lit ''## Allergy'', lit ''- B (Status: ACTIVE)'',
          10 # lit ''## Medication'', lit ''- C (Status: ACTIVE)'']"
  using headings_of_sections [of rs] first_line_is_heading [of cur r rest] grouping_example
  by blast

theorem heading_per_run_witness:
  "filter is_heading (record_sections None [sample_record, allergy_undated, medication_c])
     = [type_heading MEDICATION, type_heading ALLERGY, type_heading MEDICATION]
   \<and> hd (record_sections (Some MEDICATION) [allergy_undated]) = type_heading ALLERGY
   \<and> hd (record_sections (Some ALLERGY) [allergy_undated]) \<noteq> type_heading ALLERGY"
proof -
  have types: "record_type sample_record = MEDICATION" "record_type allergy_undated = ALLERGY"
    "record_type medication_c = MEDICATION"
    by (simp_all add: sample_record_def allergy_undated_def medication_c_def)
  have "filter is_heading (record_sections None [sample_record, allergy_undated, medication_c])
      = map type_heading (remdups_adj (map record_type [sample_record, allergy_undated, medication_c]))"
    using heading_per_run [of "[sample_record, allergy_undated, medication_c]"] by blast
  moreover have "(hd (record_sections (Some MEDICATION) (allergy_undated # []))
        = type_heading (record_type allergy_undated))
      = (Some MEDICATION \<noteq> Some (record_type allergy_undated))"
    using heading_per_run [of "[]" "Some MEDICATION" allergy_undated "[]"] by blast
  moreover have "(hd (record_sections (Some ALLERGY) (allergy_undated # []))
        = type_heading (record_type allergy_undated))
      = (Some ALLERGY \<noteq> Some (record_type allergy_undated))"
    using heading_per_run [of "[]" "Some ALLERGY" allergy_undated "[]"] by blast
  ultimately show ?thesis
    by (simp only: types list.map remdups_adj.simps) simp
qed

section \<open>Truncation of the long fields\<close>

lemma details_in_sections:
  "r \<in> set rs \<Longrightarrow> description r \<noteq> [] \<Longrightarrow>
     \<exists>pre post. record_sections cur rs = pre @ [record_line r, details_line r] @ post"
proof (induction rs arbitrary: cur)
  case Nil
  then show ?case by simp
next
  case (Cons x xs)
  show ?case
  proof (cases "r = x")
    case True
    let ?pre = "if Some (record_type x) \<noteq> cur then [type_heading (record_type x)] else []"
    let ?post = "map data_line (data x) @ record_sections (Some (record_type x)) xs"
    from True Cons.prems
    have "record_sections cur (x # xs) = ?pre @ [record_line r, details_line r] @ ?post"
      by simp
    then show ?thesis by blast
  next
    case False
    with Cons.prems have "r \<in> set xs" by simp
    from Cons.IH [OF this Cons.prems(2), of "Some (record_type x)"]
    obtain pre post where
      "record_sections (Some (record_type x)) xs = pre @ [record_line r, details_line r] @ post"
      by blast
    then have "record_sections cur (x # xs)
        = ((if Some (record_type x) \<noteq> cur then [type_heading (record_type x)] else [])
            @ [record_line x] @ (if description x \<noteq> [] then [details_line x] else [])
            @ map data_line (data x) @ pre) @ [record_line r, details_line r] @ post"
      by simp
    then show ?thesis by blast
  qed
qed

lemma text_in_document_lines:
  "d \<in> set docs \<Longrightarrow>
     \<exists>pre post. document_lines docs
        = pre @ [document_heading d, take 2000 (extracted_text d)] @ post"
proof (induction docs)
  case Nil
  then show ?case by simp
next
  case (Cons x xs)
  show ?case
  proof (cases "d = x")
    case True
    then have "document_lines (x # xs)
        = [] @ [document_heading d, take 2000 (extracted_text d)] @ document_lines xs"
      by simp
    then show ?thesis by blast
  next
    case False
    with Cons.prems have "d \<in> set xs" by simp
    from Cons.IH [OF this] obtain pre post where
      "document_lines xs = pre @ [document_heading d, take 2000 (extracted_text d)] @ post"
      by blast
    then have "document_lines (x # xs)
        = ([document_heading x, take 2000 (extracted_text x)] @ pre)
            @ [document_heading d, take 2000 (extracted_text d)] @ post"
      by simp
    then show ?thesis by blast
  qed
qed

lemma text_in_document_sections:
  assumes "d \<in> set docs"
  shows "\<exists>pre post. document_sections docs
        = pre @ [document_heading d, take 2000 (extracted_text d)] @ post"
proof -
  from text_in_document_lines [OF assms] obtain pre post where
    "document_lines docs = pre @ [document_heading d, take 2000 (extracted_text d)] @ post"
    by blast
  moreover from assms have "docs \<noteq> []" by auto
  ultimately have "document_sections docs
      = (documents_heading # pre) @ [document_heading d, take 2000 (extracted_text d)] @ post"
    by (simp add: document_sections_def)
  then show ?thesis by blast
qed

lemma str_join_Cons: "ys \<noteq> [] \<Longrightarrow> str_join sep (x # ys) = x @ sep @ str_join sep ys"
  by (cases ys) simp_all

lemma str_join_starts: "\<exists>q. str_join sep (b # suf) = b @ q"
  by (cases suf) simp_all

lemma str_join_contains_pair:
  "\<exists>p q. str_join sep (pre @ [a, b] @ suf) = p @ a @ sep @ b @ q"
proof (induction pre)
  case Nil
  from str_join_starts [of sep b suf] obtain q where "str_join sep (b # suf) = b @ q"
    by blast
  then have "str_join sep ([] @ [a, b] @ suf) = [] @ a @ sep @ b @ q"
    by simp
  then show ?case by blast
next
  case (Cons x pre)
  then obtain p q where "str_join sep (pre @ [a, b] @ suf) = p @ a @ sep @ b @ q"
    by blast
  moreover have "pre @ [a, b] @ suf \<noteq> []" by simp
  ultimately have "str_join sep ((x # pre) @ [a, b] @ suf) = (x @ sep @ p) @ a @ sep @ b @ q"
    by (simp add: str_join_Cons)
  then show ?case by blast
qed

text \<open>
  When the patient has an active record and the joined sections fit the cap, a line of
  the sections and the line after it stand in the returned context, a newline between
  them.
\<close>

lemma context_contains_pair:
  assumes "records_query st usr \<noteq> []"
    and "length (str_join [10] (context_sections st usr)) \<le> 10000"
    and "context_sections st usr = pre @ [a, b] @ suf"
  shows "\<exists>p q. get_patient_medical_context st usr = p @ a @ [10] @ b @ q"
proof -
  from assms(1,2) have "get_patient_medical_context st usr
      = str_join [10] (context_sections st usr)"
    by (simp add: get_patient_medical_context_def)
  with assms(3) str_join_contains_pair [of "[10]" pre a b suf] show ?thesis
    by simp
qed

lemma document_in_context_sections:
  assumes "d \<in> set (documents_query st usr)"
  shows "\<exists>pre suf. context_sections st usr
           = pre @ [document_heading d, take 2000 (extracted_text d)] @ suf"
proof -
  from text_in_document_sections [OF assms] obtain pre suf where
    "document_sections (documents_query st usr)
       = pre @ [document_heading d, take 2000 (extracted_text d)] @ suf"
    by blast
  then have "context_sections st usr
      = (record_sections None (records_query st usr) @ pre)
          @ [document_heading d, take 2000 (extracted_text d)] @ suf"
    by (simp add: context_sections_def)
  then show ?thesis by blast
qed

lemma document_in_context:
  assumes "d \<in> set (documents_query st usr)" and "records_query st usr \<noteq> []"
    and "length (str_join [10] (context_sections st usr)) \<le> 10000"
  shows "\<exists>p q. get_patient_medical_context st usr
           = p @ document_heading d @ [10] @ take 2000 (extracted_text d) @ q"
proof -
  from document_in_context_sections [OF assms(1)] obtain pre suf where
    "context_sections st usr
       = pre @ [document_heading d, take 2000 (extracted_text d)] @ suf"
    by blast
  from context_contains_pair [OF assms(2,3) this] show ?thesis .
qed

text \<open>
  C7. In the list of sections that assembly joins, the line after the summary line of a
  record whose description has more than 500 characters is \<^verbatim>\<open>  Details: \<close> followed by
  exactly the first 500 characters of the description; the line after the subheading of
  an included document whose extracted text has more than 2,000 characters is exactly
  the first 2,000 characters of that text, whatever its stored length; and the context
  is the first 10,000 characters of these sections joined by newlines.
\<close>

theorem per_field_truncation:
  "(r \<in> set (records_query st usr) \<and> 500 < length (description r) \<longrightarrow>
      (\<exists>pre post. context_sections st usr
          = pre @ [record_line r, lit ''  Details: '' @ take 500 (description r)] @ post)
      \<and> length (take 500 (description r)) = 500)
   \<and> (d \<in> set (documents_query st usr) \<and> 2000 < length (extracted_text d) \<longrightarrow>
      (\<exists>pre post. context_sections st usr
          = pre @ [document_heading d, take 2000 (extracted_text d)] @ post)
      \<and> length (take 2000 (extracted_text d)) = 2000)
   \<and> (records_query st usr \<noteq> [] \<longrightarrow>
        get_patient_medical_context st usr
          = take 10000 (str_join [10] (context_sections st usr)))"
proof (intro conjI impI)
  assume a: "r \<in> set (records_query st usr) \<and> 500 < length (description r)"
  then have "description r \<noteq> []" by auto
  with a details_in_sections [of r "records_query st usr" None]
  obtain pre post where
    "record_sections None (records_query st usr) = pre @ [record_line r, details_line r] @ post"
    by blast
  then have "context_sections st usr
      = pre @ [record_line r, lit ''  Details: '' @ take 500 (description r)]
          @ (post @ document_sections (documents_query st usr))"
    by (simp add: context_sections_def details_line_def)
  then show "\<exists>pre post. context_sections st usr
      = pre @ [record_line r, lit ''  Details: '' @ take 500 (description r)] @ post"
    by blast
  from a show "length (take 500 (description r)) = 500" by simp
next
  assume a: "d \<in> set (documents_query st usr) \<and> 2000 < length (extracted_text d)"
  with text_in_document_sections [of d "documents_query st usr"]
  obtain pre post where
    "document_sections (documents_query st usr)
       = pre @ [document_heading d, take 2000 (extracted_text d)] @ post"
    by blast
  then have "context_sections st usr
      = (record_sections None (records_query st usr) @ pre)
          @ [document_heading d, take 2000 (extracted_text d)] @ post"
    by (simp add: context_sections_def)
  then show "\<exists>pre post. context_sections st usr
      = pre @ [document_heading d, take 2000 (extracted_text d)] @ post"
    by blast
  from a show "length (take 2000 (extracted_text d)) = 2000" by simp
next
  assume "records_query st usr \<noteq> []"
  then show "get_patient_medical_context st usr
      = take 10000 (str_join [10] (context_sections st usr))"
    by (simp add: get_patient_medical_context_def)
qed

lemma truncation_records: "records_query truncation_store 7 = [long_description_record]"
  by (simp add: records_query_def truncation_store_def long_description_record_def
      sample_record_def)

lemma truncation_documents: "documents_query truncation_store 7 = [long_text_document]"
  by (simp add: documents_query_def documents_with_text_def truncation_store_def
      long_text_document_def sample_document_def)

lemma truncation_sections:
  "context_sections truncation_store 7
     = [10 # lit ''## Medication'', lit ''- A (Status: ACTIVE)'',
        lit ''  Details: '' @ replicate 500 100,
        10 # lit ''## Uploaded Medical Documents'',
        10 # lit ''### a.pdf (Lab Report)'',
        replicate 2000 120]"
  by (simp add: context_sections_def truncation_records truncation_documents
      document_sections_def)
     (simp add: long_description_record_def long_text_document_def sample_record_def
       sample_document_def type_heading_def record_line_def details_line_def
       documents_heading_def document_heading_def lit_def)

theorem per_field_truncation_witness:
  "long_description_record \<in> set (records_query truncation_store 7)
   \<and> length (description long_description_record) = 600
   \<and> long_text_document \<in> set (documents_query truncation_store 7)
   \<and> length (extracted_text long_text_document) = 3000
   \<and> (\<exists>pre post. context_sections truncation_store 7
          = pre @ [record_line long_description_record,
                   lit ''  Details: '' @ take 500 (description long_description_record)] @ post)
   \<and> (\<exists>pre post. context_sections truncation_store 7
          = pre @ [document_heading long_text_document,
                   take 2000 (extracted_text long_text_document)] @ post)
   \<and> get_patient_medical_context truncation_store 7
       = take 10000 (str_join [10] (context_sections truncation_store 7))
   \<and> length (get_patient_medical_context truncation_store 7) = 2603"
proof -
  have d: "description long_description_record = replicate 600 100"
    by (simp add: long_description_record_def)
  have t: "extracted_text long_text_document = replicate 3000 120"
    by (simp add: long_text_document_def)
  have "length (str_join [10] (context_sections truncation_store 7)) = 2603"
    by (simp add: truncation_sections lit_def)
  then show ?thesis
    using per_field_truncation [of long_description_record truncation_store 7 long_text_document]
    by (simp add: truncation_records truncation_documents d t)
qed

section \<open>The document section\<close>

lemma document_lines_concat:
  "document_lines docs
     = concat (map (\<lambda>d. [document_heading d, take 2000 (extracted_text d)]) docs)"
  by (induction docs) simp_all

lemma sorted_documents_with_text:
  "sorted_wrt (\<lambda>a b. created_at b \<le> created_at a) (documents_with_text st usr)"
proof -
  have "sorted_wrt by_created_at_desc (documents_with_text st usr)"
    unfolding documents_with_text_def
    by (rule sorted_order_by) (rule total_preorder_by_created_at_desc)
  then show ?thesis
    by (rule sorted_wrt_mono_rel [rotated]) (simp add: by_created_at_desc_def)
qed

lemma sorted_wrt_take_drop:
  assumes "sorted_wrt P xs" "a \<in> set (take n xs)" "b \<in> set (drop n xs)"
  shows "P a b"
proof -
  from assms(1) have "sorted_wrt P (take n xs @ drop n xs)" by simp
  then have "\<forall>x \<in> set (take n xs). \<forall>y \<in> set (drop n xs). P x y"
    unfolding sorted_wrt_append by blast
  with assms(2,3) show ?thesis by blast
qed

text \<open>
  C4. The documents with text are the patient's active documents whose extracted text
  is not empty, most recent first, and the document section is built from the first
  five of them: a heading, then a subheading and a text line for each. When there are
  seven such documents, the section holds the lines of exactly five, and the two left
  out are no more recent than any of the five. When the patient has an active record,
  the context returned is the first 10,000 characters of the record section and this
  document section joined by newlines, so no other document contributes to it; and
  when the joined text fits the cap, the subheading and the text line of each of the
  five stand in the context returned.
\<close>

theorem document_cap:
  "mset (documents_with_text st usr)
     = mset (filter (\<lambda>d. user d = usr \<and> \<not> is_deleted d \<and> extracted_text d \<noteq> [])
               (medical_documents st))
   \<and> sorted_wrt (\<lambda>a b. created_at b \<le> created_at a) (documents_with_text st usr)
   \<and> documents_query st usr = take 5 (documents_with_text st usr)
   \<and> length (documents_query st usr) \<le> 5
   \<and> document_sections (documents_query st usr)
       = (if documents_query st usr = [] then []
          else documents_heading
                 # concat (map (\<lambda>d. [document_heading d, take 2000 (extracted_text d)])
                     (documents_query st usr)))
   \<and> (length (documents_with_text st usr) = 7 \<longrightarrow>
        length (documents_query st usr) = 5
        \<and> length (document_sections (documents_query st usr)) = 11
        \<and> (\<exists>rest. length rest = 2
              \<and> documents_with_text st usr = documents_query st usr @ rest
              \<and> (\<forall>old \<in> set rest. \<forall>d \<in> set (documents_query st usr).
                    created_at old \<le> created_at d)))
   \<and> (records_query st usr \<noteq> [] \<longrightarrow>
        get_patient_medical_context st usr
          = take 10000 (str_join [10]
              (record_sections None (records_query st usr)
                 @ document_sections (documents_query st usr))))
   \<and> (records_query st usr \<noteq> []
        \<and> length (str_join [10] (context_sections st usr)) \<le> 10000 \<longrightarrow>
        (\<forall>d \<in> set (documents_query st usr).
           \<exists>p q. get_patient_medical_context st usr
                   = p @ document_heading d @ [10] @ take 2000 (extracted_text d) @ q))"
proof (intro conjI impI)
  show "mset (documents_with_text st usr)
     = mset (filter (\<lambda>d. user d = usr \<and> \<not> is_deleted d \<and> extracted_text d \<noteq> [])
               (medical_documents st))"
    by (simp add: documents_with_text_def mset_order_by)
  show "sorted_wrt (\<lambda>a b. created_at b \<le> created_at a) (documents_with_text st usr)"
    by (rule sorted_documents_with_text)
  show "documents_query st usr = take 5 (documents_with_text st usr)"
    by (simp add: documents_query_def)
  show "length (documents_query st usr) \<le> 5"
    by (simp add: documents_query_def)
  show "document_sections (documents_query st usr)
       = (if documents_query st usr = [] then []
          else documents_heading
                 # concat (map (\<lambda>d. [document_heading d, take 2000 (extracted_text d)])
                     (documents_query st usr)))"
    by (simp add: document_sections_def document_lines_concat)
next
  assume seven: "length (documents_with_text st usr) = 7"
  then show five: "length (documents_query st usr) = 5"
    by (simp add: documents_query_def)
  have "length (document_lines docs) = 2 * length docs" for docs
    by (induction docs) simp_all
  with five show "length (document_sections (documents_query st usr)) = 11"
    by (auto simp: document_sections_def)
  let ?rest = "drop 5 (documents_with_text st usr)"
  from seven have "length ?rest = 2" by simp
  moreover have "documents_with_text st usr = documents_query st usr @ ?rest"
    by (simp add: documents_query_def)
  moreover have "\<forall>old \<in> set ?rest. \<forall>d \<in> set (documents_query st usr).
      created_at old \<le> created_at d"
    using sorted_wrt_take_drop [OF sorted_documents_with_text [of st usr], of _ 5]
    by (simp add: documents_query_def)
  ultimately show "\<exists>rest. length rest = 2
      \<and> documents_with_text st usr = documents_query st usr @ rest
      \<and> (\<forall>old \<in> set rest. \<forall>d \<in> set (documents_query st usr).
            created_at old \<le> created_at d)"
    by blast
next
  assume "records_query st usr \<noteq> []"
  then show "get_patient_medical_context st usr
      = take 10000 (str_join [10]
          (record_sections None (records_query st usr)
             @ document_sections (documents_query st usr)))"
    by (simp add: get_patient_medical_context_def context_sections_def)
next
  assume a: "records_query st usr \<noteq> []
      \<and> length (str_join [10] (context_sections st usr)) \<le> 10000"
  show "\<forall>d \<in> set (documents_query st usr).
      \<exists>p q. get_patient_medical_context st usr
              = p @ document_heading d @ [10] @ take 2000 (extracted_text d) @ q"
  proof
    fix d
    assume "d \<in> set (documents_query st usr)"
    from document_in_context [OF this] a show
      "\<exists>p q. get_patient_medical_context st usr
              = p @ document_heading d @ [10] @ take 2000 (extracted_text d) @ q"
      by blast
  qed
qed

lemma seven_documents_with_text:
  "documents_with_text seven_documents_store 7
     = [document_at 7, document_at 6, document_at 5, document_at 4, document_at 3,
        document_at 2, document_at 1]"
  by (simp add: documents_with_text_def seven_documents_store_def document_at_def
      sample_document_def by_created_at_desc_def lit_def)

lemma seven_documents_records: "records_query seven_documents_store 7 = [sample_record]"
  by (simp add: records_query_def seven_documents_store_def sample_record_def)

lemma sample_record_sections:
  "record_sections None [sample_record]
     = [10 # lit ''## Medication'', lit ''- A (Status: ACTIVE)'']"
  by (simp add: sample_record_def type_heading_def record_line_def lit_def)

text \<open>
  In the sample store the context returned is the record section followed by the
  subheadings and texts of the documents created at times 7 to 3; those created at
  times 2 and 1 are not in it.
\<close>

theorem document_cap_witness:
  "length (documents_with_text seven_documents_store 7) = 7
   \<and> documents_query seven_documents_store 7
       = [document_at 7, document_at 6, document_at 5, document_at 4, document_at 3]
   \<and> length (document_sections (documents_query seven_documents_store 7)) = 11
   \<and> document_heading (document_at 2)
        \<notin> set (document_sections (documents_query seven_documents_store 7))
   \<and> document_heading (document_at 1)
        \<notin> set (document_sections (documents_query seven_documents_store 7))
   \<and> get_patient_medical_context seven_documents_store 7
       = str_join [10]
           [10 # lit ''## Medication'', lit ''- A (Status: ACTIVE)'',
            10 # lit ''## Uploaded Medical Documents'',
            10 # lit ''### d7.pdf (Lab Report)'', lit ''Hb 13.5'',
            10 # lit ''### d6.pdf (Lab Report)'', lit ''Hb 13.5'',
            10 # lit ''### d5.pdf (Lab Report)'', lit ''Hb 13.5'',
            10 # lit ''### d4.pdf (Lab Report)'', lit ''Hb 13.5'',
            10 # lit ''### d3.pdf (Lab Report)'', lit ''Hb 13.5'']"
proof -
  have seven: "length (documents_with_text seven_documents_store 7) = 7"
    by (simp add: seven_documents_with_text)
  have rs: "records_query seven_documents_store 7 \<noteq> []"
    by (simp add: seven_documents_records)
  from document_cap [of seven_documents_store 7] seven rs
  have q: "documents_query seven_documents_store 7
       = take 5 (documents_with_text seven_documents_store 7)"
    and n: "length (document_sections (documents_query seven_documents_store 7)) = 11"
    and s: "document_sections (documents_query seven_documents_store 7)
       = (if documents_query seven_documents_store 7 = [] then []
          else documents_heading
                 # concat (map (\<lambda>d. [document_heading d, take 2000 (extracted_text d)])
                     (documents_query seven_documents_store 7)))"
    and c: "get_patient_medical_context seven_documents_store 7
       = take 10000 (str_join [10]
           (record_sections None (records_query seven_documents_store 7)
              @ document_sections (documents_query seven_documents_store 7)))"
    by blast+
  from q have q': "documents_query seven_documents_store 7
       = [document_at 7, document_at 6, document_at 5, document_at 4, document_at 3]"
    by (simp add: seven_documents_with_text)
  have s': "document_sections (documents_query seven_documents_store 7)
      = [10 # lit ''## Uploaded Medical Documents'',
         10 # lit ''### d7.pdf (Lab Report)'', lit ''Hb 13.5'',
         10 # lit ''### d6.pdf (Lab Report)'', lit ''Hb 13.5'',
         10 # lit ''### d5.pdf (Lab Report)'', lit ''Hb 13.5'',
         10 # lit ''### d4.pdf (Lab Report)'', lit ''Hb 13.5'',
         10 # lit ''### d3.pdf (Lab Report)'', lit ''Hb 13.5'']"
    by (subst s) (simp add: q' document_at_def sample_document_def document_heading_def
        documents_heading_def digit_def lit_def)
  have "document_heading (document_at 2)
        \<notin> set (document_sections (documents_query seven_documents_store 7))"
    by (subst s') (simp add: document_at_def sample_document_def document_heading_def
        digit_def lit_def)
  moreover have "document_heading (document_at 1)
        \<notin> set (document_sections (documents_query seven_documents_store 7))"
    by (subst s') (simp add: document_at_def sample_document_def document_heading_def
        digit_def lit_def)
  moreover have "get_patient_medical_context seven_documents_store 7
       = str_join [10]
           [10 # lit ''## Medication'', lit ''- A (Status: ACTIVE)'',
            10 # lit ''## Uploaded Medical Documents'',
            10 # lit ''### d7.pdf (Lab Report)'', lit ''Hb 13.5'',
            10 # lit ''### d6.pdf (Lab Report)'', lit ''Hb 13.5'',
            10 # lit ''### d5.pdf (Lab Report)'', lit ''Hb 13.5'',
            10 # lit ''### d4.pdf (Lab Report)'', lit ''Hb 13.5'',
            10 # lit ''### d3.pdf (Lab Report)'', lit ''Hb 13.5'']"
    by (subst c) (simp only: seven_documents_records sample_record_sections s' append.simps,
        simp add: lit_def)
  ultimately show ?thesis using seven q' n by simp
qed

text \<open>
  C10. An active document of the patient is among the documents with text exactly when
  its extracted text is not the empty string; in particular a text made of whitespace
  only keeps the document in. The number of documents included is the number of such
  documents, at most five, so a whitespace-only document takes a place; the text of
  every included document is emitted on the line after its subheading; when the patient
  has an active record the context returned is the first 10,000 characters of the
  sections joined by newlines; and when the joined text fits the cap, the subheading
  and the text of the document stand in the context returned.
\<close>

theorem only_empty_text_is_excluded:
  assumes "d \<in> set (medical_documents st)" and "user d = usr" and "\<not> is_deleted d"
  shows "((d \<in> set (documents_with_text st usr)) = (extracted_text d \<noteq> []))
    \<and> (extracted_text d \<noteq> [] \<and> (\<forall>c \<in> set (extracted_text d). isspace c)
         \<longrightarrow> d \<in> set (documents_with_text st usr))
    \<and> length (documents_query st usr)
        = min 5 (length (filter (\<lambda>d. user d = usr \<and> \<not> is_deleted d \<and> extracted_text d \<noteq> [])
                           (medical_documents st)))
    \<and> (d \<in> set (documents_query st usr) \<longrightarrow>
         (\<exists>pre post. context_sections st usr
             = pre @ [document_heading d, take 2000 (extracted_text d)] @ post))
    \<and> (records_query st usr \<noteq> [] \<longrightarrow>
         get_patient_medical_context st usr
           = take 10000 (str_join [10] (context_sections st usr)))
    \<and> (d \<in> set (documents_query st usr) \<and> records_query st usr \<noteq> []
         \<and> length (str_join [10] (context_sections st usr)) \<le> 10000 \<longrightarrow>
         (\<exists>p q. get_patient_medical_context st usr
                 = p @ document_heading d @ [10] @ take 2000 (extracted_text d) @ q))"
proof -
  from assms have mem: "(d \<in> set (documents_with_text st usr)) = (extracted_text d \<noteq> [])"
    by (simp add: documents_with_text_def set_order_by)
  have len: "length (documents_query st usr)
        = min 5 (length (filter (\<lambda>d. user d = usr \<and> \<not> is_deleted d \<and> extracted_text d \<noteq> [])
                           (medical_documents st)))"
    by (simp add: documents_query_def documents_with_text_def length_order_by min.commute)
  have secs: "\<exists>pre post. context_sections st usr
             = pre @ [document_heading d, take 2000 (extracted_text d)] @ post"
    if "d \<in> set (documents_query st usr)"
    using that by (rule document_in_context_sections)
  have link: "get_patient_medical_context st usr
      = take 10000 (str_join [10] (context_sections st usr))"
    if "records_query st usr \<noteq> []"
    using that by (simp add: get_patient_medical_context_def)
  have out: "\<exists>p q. get_patient_medical_context st usr
                 = p @ document_heading d @ [10] @ take 2000 (extracted_text d) @ q"
    if "d \<in> set (documents_query st usr) \<and> records_query st usr \<noteq> []
         \<and> length (str_join [10] (context_sections st usr)) \<le> 10000"
    using that document_in_context [of d st usr] by blast
  from mem len secs link out show ?thesis by blast
qed

lemma blank_documents_query:
  "documents_query blank_documents_store 7
     = [blank_document_at 6, blank_document_at 5, blank_document_at 4, blank_document_at 3,
        blank_document_at 2]"
  by (simp add: documents_query_def documents_with_text_def blank_documents_store_def
      blank_document_at_def document_at_def sample_document_def by_created_at_desc_def lit_def)

lemma blank_documents_records: "records_query blank_documents_store 7 = [sample_record]"
  by (simp add: records_query_def blank_documents_store_def sample_record_def)

lemma blank_documents_sections:
  "context_sections blank_documents_store 7
     = [10 # lit ''## Medication'', lit ''- A (Status: ACTIVE)'',
        10 # lit ''## Uploaded Medical Documents'',
        10 # lit ''### d6.pdf (Lab Report)'', [32, 10, 9],
        10 # lit ''### d5.pdf (Lab Report)'', [32, 10, 9],
        10 # lit ''### d4.pdf (Lab Report)'', [32, 10, 9],
        10 # lit ''### d3.pdf (Lab Report)'', [32, 10, 9],
        10 # lit ''### d2.pdf (Lab Report)'', [32, 10, 9]]"
  by (simp only: context_sections_def blank_documents_records blank_documents_query
      sample_record_sections)
     (simp add: document_sections_def blank_document_at_def document_at_def
       sample_document_def document_heading_def documents_heading_def digit_def lit_def)

text \<open>
  In the sample store the five whitespace-only documents fill the five places, the
  document with readable text is left out, and the context returned carries the five
  whitespace texts.
\<close>

theorem only_empty_text_is_excluded_witness:
  "blank_document_at 6 \<in> set (medical_documents blank_documents_store)
   \<and> user (blank_document_at 6) = 7 \<and> \<not> is_deleted (blank_document_at 6)
   \<and> extracted_text (blank_document_at 6) = [32, 10, 9]
   \<and> strip (extracted_text (blank_document_at 6)) = []
   \<and> blank_document_at 6 \<in> set (documents_with_text blank_documents_store 7)
   \<and> documents_query blank_documents_store 7
       = [blank_document_at 6, blank_document_at 5, blank_document_at 4, blank_document_at 3,
          blank_document_at 2]
   \<and> document_at 1 \<notin> set (documents_query blank_documents_store 7)
   \<and> (\<exists>p q. get_patient_medical_context blank_documents_store 7
          = p @ document_heading (blank_document_at 6) @ [10] @ [32, 10, 9] @ q)
   \<and> get_patient_medical_context blank_documents_store 7
       = str_join [10]
           [10 # lit ''## Medication'', lit ''- A (Status: ACTIVE)'',
            10 # lit ''## Uploaded Medical Documents'',
            10 # lit ''### d6.pdf (Lab Report)'', [32, 10, 9],
            10 # lit ''### d5.pdf (Lab Report)'', [32, 10, 9],
            10 # lit ''### d4.pdf (Lab Report)'', [32, 10, 9],
            10 # lit ''### d3.pdf (Lab Report)'', [32, 10, 9],
            10 # lit ''### d2.pdf (Lab Report)'', [32, 10, 9]]"
proof -
  have a: "blank_document_at 6 \<in> set (medical_documents blank_documents_store)"
    by (simp add: blank_documents_store_def)
  have b: "user (blank_document_at 6) = 7"
    by (simp add: blank_document_at_def document_at_def sample_document_def)
  have c: "\<not> is_deleted (blank_document_at 6)"
    by (simp add: blank_document_at_def document_at_def sample_document_def)
  have t: "extracted_text (blank_document_at 6) = [32, 10, 9]"
    by (simp add: blank_document_at_def)
  have s: "strip (extracted_text (blank_document_at 6)) = []"
    by (simp add: t strip_def isspace_def)
  have n: "document_at 1 \<notin> set (documents_query blank_documents_store 7)"
    by (simp add: blank_documents_query)
       (simp add: blank_document_at_def document_at_def sample_document_def lit_def)
  have q: "blank_document_at 6 \<in> set (documents_query blank_documents_store 7)"
    by (simp add: blank_documents_query)
  have r: "records_query blank_documents_store 7 \<noteq> []"
    by (simp add: blank_documents_records)
  have l: "length (str_join [10] (context_sections blank_documents_store 7)) \<le> 10000"
    by (simp add: blank_documents_sections lit_def)
  note claim = only_empty_text_is_excluded [OF a b c]
  from claim t have w: "blank_document_at 6 \<in> set (documents_with_text blank_documents_store 7)"
    by simp
  from claim q r l
  have "\<exists>p q. get_patient_medical_context blank_documents_store 7
      = p @ document_heading (blank_document_at 6) @ [10]
          @ take 2000 (extracted_text (blank_document_at 6)) @ q"
    by blast
  then have e: "\<exists>p q. get_patient_medical_context blank_documents_store 7
      = p @ document_heading (blank_document_at 6) @ [10] @ [32, 10, 9] @ q"
    by (simp add: t)
  from claim r
  have "get_patient_medical_context blank_documents_store 7
      = take 10000 (str_join [10] (context_sections blank_documents_store 7))"
    by blast
  with l have f: "get_patient_medical_context blank_documents_store 7
      = str_join [10] (context_sections blank_documents_store 7)"
    by simp
  from a b c t s w n e show ?thesis
    by (simp only: f blank_documents_sections blank_documents_query) simp
qed

section \<open>Text extraction\<close>

lemma collect_text_parts_texts:
  "collect_text_parts (map Inr texts) text_parts
     = Inr (text_parts @ map strip (filter (\<lambda>t. t \<noteq> []) texts))"
  by (induction texts arbitrary: text_parts) simp_all

lemma collect_text_parts_raises:
  "Inl e \<in> set pages \<Longrightarrow> \<exists>e'. collect_text_parts pages text_parts = Inl e'"
proof (induction pages arbitrary: text_parts)
  case Nil
  then show ?case by simp
next
  case (Cons p ps)
  show ?case
  proof (cases p)
    case (Inl a)
    then show ?thesis by simp
  next
    case (Inr t)
    with Cons.prems have "Inl e \<in> set ps" by auto
    from Cons.IH [OF this] Inr show ?thesis by simp
  qed
qed

text \<open>
  C6, amended. When the reader yields the pages and every page yields its text, the
  extractor goes through the pages in order, skips the pages whose extracted text is
  empty, strips the text of each page it keeps, joins the stripped texts, also those
  the strip left empty, with a blank line between them and returns the first 50,000
  characters; so when the joined text is longer than 50,000 characters the result has
  exactly 50,000.
\<close>

theorem extraction_algorithm:
  assumes "PdfReader (content file) = Inr (map Inr texts)"
  shows "fst (extract_pdf_text PdfReader file)
      = take 50000 (str_join [10, 10] (map strip (filter (\<lambda>t. t \<noteq> []) texts)))
    \<and> (50000 < length (str_join [10, 10] (map strip (filter (\<lambda>t. t \<noteq> []) texts)))
         \<longrightarrow> length (fst (extract_pdf_text PdfReader file)) = 50000)"
  using assms
  by (simp add: extract_pdf_text_def extract_pdf_text_try_def collect_text_parts_texts)

lemma strip_replicate_x: "strip (replicate n 120) = replicate n 120"
  by (simp add: strip_def isspace_def)

theorem extraction_algorithm_witness:
  "paged_reader (map Inr [lit ''  Page one '', [], replicate 60000 120]) (content sample_upload)
     = Inr (map Inr [lit ''  Page one '', [], replicate 60000 120])
   \<and> fst (extract_pdf_text (paged_reader (map Inr [lit ''  Page one '', [], replicate 60000 120]))
          sample_upload)
       = lit ''Page one'' @ [10, 10] @ replicate 49990 120
   \<and> length (fst (extract_pdf_text
         (paged_reader (map Inr [lit ''  Page one '', [], replicate 60000 120])) sample_upload))
       = 50000"
proof -
  let ?texts = "[lit ''  Page one '', [], replicate 60000 120]"
  have r: "paged_reader (map Inr ?texts) (content sample_upload) = Inr (map Inr ?texts)"
    by (simp add: paged_reader_def)
  have s: "strip (lit ''  Page one '') = lit ''Page one''"
    by (simp add: strip_def isspace_def lit_def)
  have ne: "lit ''  Page one '' \<noteq> []" by (simp add: lit_def)
  have j: "str_join [10, 10] (map strip (filter (\<lambda>t. t \<noteq> []) ?texts))
      = lit ''Page one'' @ [10, 10] @ replicate 60000 120"
    by (simp add: ne s strip_replicate_x)
  have l: "length (lit ''Page one'') = 8" by (simp add: lit_def)
  from extraction_algorithm [of "paged_reader (map Inr ?texts)" sample_upload ?texts, OF r]
  have "fst (extract_pdf_text (paged_reader (map Inr ?texts)) sample_upload)
      = take 50000 (lit ''Page one'' @ [10, 10] @ replicate 60000 120)"
    unfolding j by blast
  then have "fst (extract_pdf_text (paged_reader (map Inr ?texts)) sample_upload)
      = lit ''Page one'' @ [10, 10] @ replicate 49990 120"
    by (simp add: l)
  with r l show ?thesis by simp
qed

lemma whitespace_page_kept:
  "fst (extract_pdf_text (paged_reader (map Inr [[97], [32], [98]])) sample_upload)
     = [97, 10, 10, 10, 10, 98]"
  by (simp add: extract_pdf_text_def extract_pdf_text_try_def paged_reader_def strip_def
      isspace_def)

lemma spec_extract_text_example: "spec_extract_text [[97], [32], [98]] = [97, 10, 10, 98]"
  by (simp add: spec_extract_text_def strip_def isspace_def)

text \<open>
  C6, as stated, fails. The claim strips each unit, skips the units left without text
  and joins the non-empty ones, which for the pages \<^verbatim>\<open>a\<close>, one blank, \<^verbatim>\<open>b\<close> is \<^verbatim>\<open>a\<close>, a
  blank line, \<^verbatim>\<open>b\<close>. The source tests the text before it strips it: the page of one
  blank passes the test, is stripped to the empty string and joined as an empty unit,
  so \<^verbatim>\<open>a\<close> and \<^verbatim>\<open>b\<close> end up two separators apart.
\<close>

theorem strip_then_skip_counterexample:
  "fst (extract_pdf_text (paged_reader (map Inr [[97], [32], [98]])) sample_upload)
     = [97, 10, 10, 10, 10, 98]
   \<and> spec_extract_text [[97], [32], [98]] = [97, 10, 10, 98]
   \<and> fst (extract_pdf_text (paged_reader (map Inr [[97], [32], [98]])) sample_upload)
       \<noteq> spec_extract_text [[97], [32], [98]]"
  unfolding whitespace_page_kept spec_extract_text_example by simp

section \<open>Uploads\<close>

lemma upload_document_stores:
  "\<exists>doc st' warnings.
     upload_document PdfReader st new_pk now usr file dtype rec ip agent = (doc, st', warnings)
     \<and> medical_documents st' = medical_documents st @ [doc]
     \<and> medical_records st' = medical_records st
     \<and> original_filename doc = name file \<and> \<not> is_deleted doc \<and> user doc = usr
     \<and> file_size doc = upload_size file
     \<and> extracted_text doc
         = (if endswith_pdf (name file) then fst (extract_pdf_text PdfReader file) else [])
     \<and> warnings
         = (if endswith_pdf (name file) then snd (extract_pdf_text PdfReader file) else [])"
  by (simp add: upload_document_def log_action_def Let_def)

text \<open>
  C5. Extraction returns a text for every file and every behaviour of the PDF library:
  the text of the \<^verbatim>\<open>try\<close> block when it completes and the empty string when it raises,
  with one warning logged. The block raises when the reader rejects the payload and
  when a page raises. The upload stores the document in every case, and stores it with
  empty text when extraction was attempted and failed.
\<close>

theorem extraction_failure_is_isolated:
  "fst (extract_pdf_text PdfReader file)
     = (case extract_pdf_text_try PdfReader file of Inl e \<Rightarrow> [] | Inr text \<Rightarrow> text)
   \<and> (extract_pdf_text_try PdfReader file = Inl e \<longrightarrow>
        extract_pdf_text PdfReader file = ([], [lit ''PDF extraction failed: '' @ e]))
   \<and> (PdfReader (content file) = Inl e \<longrightarrow> extract_pdf_text_try PdfReader file = Inl e)
   \<and> (PdfReader (content file) = Inr pages \<and> Inl e \<in> set pages \<longrightarrow>
        (\<exists>e'. extract_pdf_text_try PdfReader file = Inl e'))
   \<and> (\<exists>doc st' warnings.
        upload_document PdfReader st new_pk now usr file dtype rec ip agent = (doc, st', warnings)
        \<and> medical_documents st' = medical_documents st @ [doc]
        \<and> original_filename doc = name file \<and> \<not> is_deleted doc
        \<and> (endswith_pdf (name file) \<and> extract_pdf_text_try PdfReader file = Inl e \<longrightarrow>
             extracted_text doc = [] \<and> warnings = [lit ''PDF extraction failed: '' @ e]))"
proof (intro conjI impI)
  show "fst (extract_pdf_text PdfReader file)
     = (case extract_pdf_text_try PdfReader file of Inl e \<Rightarrow> [] | Inr text \<Rightarrow> text)"
    by (simp add: extract_pdf_text_def split: sum.split)
  show "extract_pdf_text PdfReader file = ([], [lit ''PDF extraction failed: '' @ e])"
    if "extract_pdf_text_try PdfReader file = Inl e"
    using that by (simp add: extract_pdf_text_def)
  show "extract_pdf_text_try PdfReader file = Inl e" if "PdfReader (content file) = Inl e"
    using that by (simp add: extract_pdf_text_try_def)
  show "\<exists>e'. extract_pdf_text_try PdfReader file = Inl e'"
    if "PdfReader (content file) = Inr pages \<and> Inl e \<in> set pages"
  proof -
    from that collect_text_parts_raises [of e pages "[]"]
    obtain e' where "collect_text_parts pages [] = Inl e'" by blast
    with that show ?thesis by (simp add: extract_pdf_text_try_def)
  qed
  from upload_document_stores [of PdfReader st new_pk now usr "file" dtype rec ip agent]
  obtain doc st' warnings where
    u: "upload_document PdfReader st new_pk now usr file dtype rec ip agent = (doc, st', warnings)"
    and m: "medical_documents st' = medical_documents st @ [doc]"
    and f: "original_filename doc = name file" "\<not> is_deleted doc"
    and t: "extracted_text doc
         = (if endswith_pdf (name file) then fst (extract_pdf_text PdfReader file) else [])"
    and w: "warnings
         = (if endswith_pdf (name file) then snd (extract_pdf_text PdfReader file) else [])"
    by blast
  have "extracted_text doc = [] \<and> warnings = [lit ''PDF extraction failed: '' @ e]"
    if "endswith_pdf (name file) \<and> extract_pdf_text_try PdfReader file = Inl e"
    using that t w by (simp add: extract_pdf_text_def)
  with u m f show "\<exists>doc st' warnings.
        upload_document PdfReader st new_pk now usr file dtype rec ip agent = (doc, st', warnings)
        \<and> medical_documents st' = medical_documents st @ [doc]
        \<and> original_filename doc = name file \<and> \<not> is_deleted doc
        \<and> (endswith_pdf (name file) \<and> extract_pdf_text_try PdfReader file = Inl e \<longrightarrow>
             extracted_text doc = [] \<and> warnings = [lit ''PDF extraction failed: '' @ e])"
    by blast
qed


theorem extraction_failure_is_isolated_witness:
  "endswith_pdf (name sample_upload)
   \<and> corrupt_reader (content sample_upload) = Inl (lit ''EOF marker not found'')
   \<and> extract_pdf_text corrupt_reader sample_upload
       = ([], [lit ''PDF extraction failed: EOF marker not found''])
   \<and> (\<exists>e'. extract_pdf_text_try
               (paged_reader [Inr (lit ''first page''), Inl (lit ''bad page'')]) sample_upload
             = Inl e')
   \<and> (\<exists>doc st' warnings.
        upload_document corrupt_reader empty_store 1 100 7 sample_upload LAB_REPORT None None []
          = (doc, st', warnings)
        \<and> medical_documents st' = [doc]
        \<and> original_filename doc = lit ''Scan.PDF''
        \<and> extracted_text doc = []
        \<and> warnings = [lit ''PDF extraction failed: EOF marker not found''])"
proof -
  let ?e = "lit ''EOF marker not found''"
  let ?pages = "[Inr (lit ''first page''), Inl (lit ''bad page'')]"
  have suffix: "endswith_pdf (name sample_upload)"
    by (simp add: endswith_pdf_def sample_upload_def ascii_lower_def lit_def)
  have raises: "corrupt_reader (content sample_upload) = Inl ?e"
    by (simp add: corrupt_reader_def)
  have message: "lit ''PDF extraction failed: '' @ ?e
      = lit ''PDF extraction failed: EOF marker not found''"
    by (simp add: lit_def)
  have paged: "paged_reader ?pages (content sample_upload) = Inr ?pages
      \<and> Inl (lit ''bad page'') \<in> set ?pages"
    by (simp add: paged_reader_def)
  note corrupt = extraction_failure_is_isolated
    [of corrupt_reader sample_upload ?e _ empty_store 1 100 7 LAB_REPORT None None "[]"]
  from corrupt raises have tried: "extract_pdf_text_try corrupt_reader sample_upload = Inl ?e"
    by blast
  with corrupt have result: "extract_pdf_text corrupt_reader sample_upload
      = ([], [lit ''PDF extraction failed: '' @ ?e])"
    by blast
  from extraction_failure_is_isolated
    [of "paged_reader ?pages" sample_upload "lit ''bad page''" ?pages] paged
  have paged_fail: "\<exists>e'. extract_pdf_text_try (paged_reader ?pages) sample_upload = Inl e'"
    by blast
  from corrupt suffix tried
  have "\<exists>doc st' warnings.
        upload_document corrupt_reader empty_store 1 100 7 sample_upload LAB_REPORT None None []
          = (doc, st', warnings)
        \<and> medical_documents st' = medical_documents empty_store @ [doc]
        \<and> original_filename doc = name sample_upload
        \<and> extracted_text doc = []
        \<and> warnings = [lit ''PDF extraction failed: '' @ ?e]"
    by blast
  then have "\<exists>doc st' warnings.
        upload_document corrupt_reader empty_store 1 100 7 sample_upload LAB_REPORT None None []
          = (doc, st', warnings)
        \<and> medical_documents st' = [doc]
        \<and> original_filename doc = lit ''Scan.PDF''
        \<and> extracted_text doc = []
        \<and> warnings = [lit ''PDF extraction failed: EOF marker not found'']"
    by (simp only: message) (simp add: empty_store_def sample_upload_def)
  with suffix raises result paged_fail show ?thesis
    by (simp only: message)
qed

text \<open>
  C9. A request that carries a file of 20,971,521 bytes or more is answered with the
  size error, the store unchanged and nothing logged, whatever the PDF library would do
  with the payload. A file of at most 20,971,520 bytes, so one of exactly 20 MiB, passes
  the size test, and with form fields the serializer accepts the document is created.
\<close>

theorem upload_size_gate:
  assumes "FILES_file request = Some file" and "name file \<noteq> []"
  shows "(20971521 \<le> upload_size file \<longrightarrow>
            post PdfReader st new_pk now request
              = (HTTP_400_BAD_REQUEST (lit ''File must be smaller than 20MB.''), st, []))
    \<and> (upload_size file \<le> 20971520 \<and> UploadDocumentSerializer request = Some validated \<longrightarrow>
         (\<exists>doc st' warnings.
            post PdfReader st new_pk now request = (HTTP_201_CREATED doc, st', warnings)
            \<and> medical_documents st' = medical_documents st @ [doc]
            \<and> original_filename doc = name file
            \<and> file_size doc = upload_size file))"
proof (intro conjI impI)
  assume "20971521 \<le> upload_size file"
  with assms show "post PdfReader st new_pk now request
      = (HTTP_400_BAD_REQUEST (lit ''File must be smaller than 20MB.''), st, [])"
    by (simp add: post_def)
next
  assume a: "upload_size file \<le> 20971520 \<and> UploadDocumentSerializer request = Some validated"
  let ?rec = "case snd validated of
                None \<Rightarrow> None
              | Some rid \<Rightarrow>
                  find (\<lambda>r. pk r = rid \<and> user r = request_user request \<and> \<not> is_deleted r)
                    (medical_records st)"
  let ?agent = "case HTTP_USER_AGENT request of None \<Rightarrow> [] | Some a \<Rightarrow> a"
  from upload_document_stores [of PdfReader st new_pk now "request_user request" "file"
      "fst validated" ?rec "REMOTE_ADDR request" ?agent]
  obtain doc st' warnings where
    u: "upload_document PdfReader st new_pk now (request_user request) file (fst validated)
          ?rec (REMOTE_ADDR request) ?agent = (doc, st', warnings)"
    and m: "medical_documents st' = medical_documents st @ [doc]"
    and f: "original_filename doc = name file" "file_size doc = upload_size file"
    by blast
  from assms a u have "post PdfReader st new_pk now request = (HTTP_201_CREATED doc, st', warnings)"
    by (simp add: post_def Let_def)
  with m f show "\<exists>doc st' warnings.
      post PdfReader st new_pk now request = (HTTP_201_CREATED doc, st', warnings)
      \<and> medical_documents st' = medical_documents st @ [doc]
      \<and> original_filename doc = name file
      \<and> file_size doc = upload_size file"
    by blast
qed

lemma sample_request_valid:
  "UploadDocumentSerializer (upload_request_with file) = Some (LAB_REPORT, None)"
  by (simp add: UploadDocumentSerializer_def upload_request_with_def DocumentType_choices_def
      lit_def)

theorem upload_size_gate_witness:
  "upload_size (payload_of_size 20971521) = 20971521
   \<and> post (paged_reader []) empty_store 1 100 (upload_request_with (payload_of_size 20971521))
       = (HTTP_400_BAD_REQUEST (lit ''File must be smaller than 20MB.''), empty_store, [])
   \<and> upload_size (payload_of_size 20971520) = 20971520
   \<and> (\<exists>doc st' warnings.
        post (paged_reader []) empty_store 1 100 (upload_request_with (payload_of_size 20971520))
          = (HTTP_201_CREATED doc, st', warnings)
        \<and> medical_documents st' = [doc]
        \<and> file_size doc = 20971520)"
proof -
  have f: "FILES_file (upload_request_with up) = Some up" for up
    by (simp add: upload_request_with_def)
  have n: "name (payload_of_size k) \<noteq> []" for k
    by (simp add: payload_of_size_def lit_def)
  have s: "upload_size (payload_of_size k) = k" for k
    by (simp add: payload_of_size_def upload_size_def)
  have e: "medical_documents empty_store = []"
    by (simp add: empty_store_def)
  from upload_size_gate [OF f n, of 20971521 "paged_reader []" empty_store 1 100]
  have over: "post (paged_reader []) empty_store 1 100
        (upload_request_with (payload_of_size 20971521))
      = (HTTP_400_BAD_REQUEST (lit ''File must be smaller than 20MB.''), empty_store, [])"
    by (simp add: s)
  from upload_size_gate [OF f n, of 20971520 "paged_reader []" empty_store 1 100
      "(LAB_REPORT, None)"]
  have "\<exists>doc st' warnings.
        post (paged_reader []) empty_store 1 100 (upload_request_with (payload_of_size 20971520))
          = (HTTP_201_CREATED doc, st', warnings)
        \<and> medical_documents st' = medical_documents empty_store @ [doc]
        \<and> original_filename doc = name (payload_of_size 20971520)
        \<and> file_size doc = upload_size (payload_of_size 20971520)"
    by (simp add: s sample_request_valid)
  then have "\<exists>doc st' warnings.
        post (paged_reader []) empty_store 1 100 (upload_request_with (payload_of_size 20971520))
          = (HTTP_201_CREATED doc, st', warnings)
        \<and> medical_documents st' = [doc]
        \<and> file_size doc = 20971520"
    by (simp only: s e append_Nil) blast
  with over s show ?thesis by simp
qed

end
